theory Spec2Isabelle
  imports Complex_Main
begin

section \<open>Values, errors and the library objects edges.py works on\<close>

text \<open>
  edges.py is glue over three libraries: networkx (the graph), pandas/geopandas (the
  tables) and shapely (the geometries). The functions of edges.py are embedded one by one
  below; the library objects they receive are modelled as far as edges.py uses them.

  Every exception the Python can raise is a value: a function that may raise returns
  \<open>error + 'a\<close>, with \<open>Inl\<close> for the exception.
\<close>

datatype error = KeyError | NetworkXError | ValueError | AttributeError

text \<open>
  A shapely geometry is opaque (\<open>Shape\<close>), except for the line strings that edges.py
  builds itself with \<open>LineString([p, q])\<close>. The operations \<open>.centroid\<close> and
  \<open>.intersection\<close> belong to shapely and are parameters of the functions that use them.
\<close>

datatype ('p, 's) geometry = Shape 's | LineString "'p list"

text \<open>
  A cell of a table, a node attribute, a key or a label: an integer, a string or a
  geometry. On these, Python's \<open>==\<close> and dictionary lookup are structural equality.
\<close>

datatype ('p, 's) cell = IntV int | StrV string | GeomV "('p, 's) geometry"

type_synonym ('p, 's) attrs = "string \<rightharpoonup> ('p, 's) cell"

text \<open>
  A networkx Graph as edges.py sees it: the node dictionary \<open>_node\<close> in insertion order
  (node, attribute dictionary), and the adjacency \<open>_adj\<close>: for each node the keys of its
  neighbour dictionary in insertion order. Nodes are integers, as the sentinel \<open>-1\<close> of
  \<open>find_node_by_key\<close> presumes. Edge attributes are never read and are left out.
\<close>

record ('p, 's) graph =
  node_dict :: "(int \<times> ('p, 's) attrs) list"
  adj :: "int \<Rightarrow> int list"

definition node_ids :: "('p, 's) graph \<Rightarrow> int list" where
  "node_ids g = map fst (node_dict g)"

text \<open>
  The class invariant networkx maintains: node keys are unique, neighbours are nodes,
  adjacency is symmetric and a neighbour dictionary has unique keys.
\<close>

definition nx_invariant :: "('p, 's) graph \<Rightarrow> bool" where
  "nx_invariant g \<longleftrightarrow>
     distinct (node_ids g) \<and>
     (\<forall>u v. v \<in> set (adj g u) \<longrightarrow>
        u \<in> set (node_ids g) \<and> v \<in> set (node_ids g) \<and> u \<in> set (adj g v)) \<and>
     (\<forall>u. distinct (adj g u))"

text \<open>
  A (Geo)DataFrame with the default positional index: the column names, the rows in
  order, and the coordinate reference system. A row gives a cell for every name; only the
  cells of the table's columns mean anything, and every read checks the column list
  first, as \<open>row[key]\<close> and \<open>df[col]\<close> do when they raise KeyError.
\<close>

record ('p, 's) table =
  columns :: "string list"
  rows :: "(string \<Rightarrow> ('p, 's) cell) list"
  crs :: "string option"

definition blank_row :: "string \<Rightarrow> ('p, 's) cell" where
  "blank_row = (\<lambda>_. IntV 0)"

subsection \<open>Comprehensions and loops whose body may raise\<close>

fun try_map :: "('a \<Rightarrow> error + 'b) \<Rightarrow> 'a list \<Rightarrow> error + 'b list" where
  "try_map f [] = Inr []"
| "try_map f (x # xs) =
     (case f x of
        Inl e \<Rightarrow> Inl e
      | Inr y \<Rightarrow> (case try_map f xs of Inl e \<Rightarrow> Inl e | Inr ys \<Rightarrow> Inr (y # ys)))"

fun try_fold :: "('a \<Rightarrow> 'st \<Rightarrow> error + 'st) \<Rightarrow> 'a list \<Rightarrow> 'st \<Rightarrow> error + 'st" where
  "try_fold f [] s = Inr s"
| "try_fold f (x # xs) s =
     (case f x s of Inl e \<Rightarrow> Inl e | Inr s' \<Rightarrow> try_fold f xs s')"

subsection \<open>networkx: node view, edge view, add\_edge, remove\_edge\<close>

text \<open>\<open>graph.nodes[n]\<close>: the attribute dictionary of \<open>n\<close>, KeyError when \<open>n\<close> is no node.\<close>

definition nodes_getitem :: "('p, 's) graph \<Rightarrow> int \<Rightarrow> error + ('p, 's) attrs" where
  "nodes_getitem g n =
     (case map_of (node_dict g) n of None \<Rightarrow> Inl KeyError | Some a \<Rightarrow> Inr a)"

text \<open>\<open>d[key]\<close> on an attribute dictionary.\<close>

definition attr_getitem :: "('p, 's) attrs \<Rightarrow> string \<Rightarrow> error + ('p, 's) cell" where
  "attr_getitem a key = (case a key of None \<Rightarrow> Inl KeyError | Some x \<Rightarrow> Inr x)"

text \<open>
  \<open>list(graph.edges)\<close>: networkx walks the nodes in order and, for each node \<open>n\<close>, its
  neighbours in order, yielding \<open>(n, nbr)\<close> unless \<open>nbr\<close> is a node already walked.
\<close>

fun edges_from :: "(int \<Rightarrow> int list) \<Rightarrow> int list \<Rightarrow> int list \<Rightarrow> (int \<times> int) list" where
  "edges_from a seen [] = []"
| "edges_from a seen (n # ns) =
     map (Pair n) (filter (\<lambda>nbr. nbr \<notin> set seen) (a n)) @ edges_from a (n # seen) ns"

definition edges :: "('p, 's) graph \<Rightarrow> (int \<times> int) list" where
  "edges g = edges_from (adj g) [] (node_ids g)"

definition edge_set :: "('p, 's) graph \<Rightarrow> int set set" where
  "edge_set g = (\<lambda>(u, v). {u, v}) ` set (edges g)"

text \<open>
  \<open>Graph.add_edge(u, v)\<close>: a missing endpoint is added as a node with no attributes;
  then \<open>_adj[u][v]\<close> and \<open>_adj[v][u]\<close> are assigned (an existing key keeps its place).
  It raises nothing for integer nodes.
\<close>

definition add_node_if_absent :: "('p, 's) graph \<Rightarrow> int \<Rightarrow> ('p, 's) graph" where
  "add_node_if_absent g n =
     (if n \<in> set (node_ids g) then g
      else g\<lparr>node_dict := node_dict g @ [(n, Map.empty)], adj := (adj g)(n := [])\<rparr>)"

definition assign_key :: "int \<Rightarrow> int list \<Rightarrow> int list" where
  "assign_key x xs = (if x \<in> set xs then xs else xs @ [x])"

definition add_edge :: "('p, 's) graph \<Rightarrow> int \<Rightarrow> int \<Rightarrow> ('p, 's) graph" where
  "add_edge g u v =
     (let g1 = add_node_if_absent g u;
          g2 = add_node_if_absent g1 v;
          a1 = (adj g2)(u := assign_key v (adj g2 u));
          a2 = a1(v := assign_key u (a1 v))
      in g2\<lparr>adj := a2\<rparr>)"

text \<open>
  \<open>Graph.remove_edge(u, v)\<close>: \<open>del _adj[u][v]\<close>, then \<open>del _adj[v][u]\<close> when
  \<open>u != v\<close>; a KeyError of either is re-raised as NetworkXError.
\<close>

definition remove_edge :: "('p, 's) graph \<Rightarrow> int \<Rightarrow> int \<Rightarrow> error + ('p, 's) graph" where
  "remove_edge g u v =
     (if u \<in> set (node_ids g) \<and> v \<in> set (adj g u) then
        (let a1 = (adj g)(u := remove1 v (adj g u)) in
         if u \<noteq> v then
           (if v \<in> set (node_ids g) \<and> u \<in> set (a1 v)
            then Inr (g\<lparr>adj := a1(v := remove1 u (a1 v))\<rparr>)
            else Inl NetworkXError)
         else Inr (g\<lparr>adj := a1\<rparr>))
      else Inl NetworkXError)"

subsection \<open>pandas: reading a cell and a column\<close>

text \<open>\<open>row[c]\<close> for a row of table \<open>t\<close>.\<close>

definition row_getitem ::
  "('p, 's) table \<Rightarrow> (string \<Rightarrow> ('p, 's) cell) \<Rightarrow> string \<Rightarrow> error + ('p, 's) cell" where
  "row_getitem t r c = (if c \<in> set (columns t) then Inr (r c) else Inl KeyError)"

text \<open>\<open>t[c]\<close>: the column as a list.\<close>

definition column :: "('p, 's) table \<Rightarrow> string \<Rightarrow> error + ('p, 's) cell list" where
  "column t c = (if c \<in> set (columns t) then Inr (map (\<lambda>r. r c) (rows t)) else Inl KeyError)"

text \<open>
  \<open>df.set_crs(shp.crs)\<close>: the geopandas releases of the time of edges.py (0.8 to 0.14)
  raise ValueError ("Must pass either crs or epsg") when the reference system passed is
  None. No property below depends on that branch: the ones about a returned table hold
  of whatever is returned.
\<close>

definition set_crs :: "('p, 's) table \<Rightarrow> string option \<Rightarrow> error + ('p, 's) table" where
  "set_crs t c = (case c of None \<Rightarrow> Inl ValueError | Some x \<Rightarrow> Inr (t\<lparr>crs := Some x\<rparr>))"

section \<open>edges.py\<close>

subsection \<open>find\_node\_by\_key\<close>

fun scan_nodes ::
  "('p, 's) cell \<Rightarrow> string \<Rightarrow> (int \<times> ('p, 's) attrs) list \<Rightarrow> error + int" where
  "scan_nodes keyval key [] = Inr (- 1)"
| "scan_nodes keyval key ((node, a) # rest) =
     (case a key of
        None \<Rightarrow> Inl KeyError
      | Some x \<Rightarrow> if x = keyval then Inr node else scan_nodes keyval key rest)"

definition find_node_by_key ::
  "('p, 's) cell \<Rightarrow> ('p, 's) graph \<Rightarrow> string \<Rightarrow> error + int" where
  "find_node_by_key keyval g key = scan_nodes keyval key (node_dict g)"

subsection \<open>The key dictionaries built from the feature table\<close>

text \<open>
  The loop \<open>for _idx, row in shp.iterrows(): key_dict[row[key]] = row['geometry']\<close>,
  started from the empty dictionary.
\<close>

fun key_dict_loop ::
  "('p, 's) table \<Rightarrow> string \<Rightarrow> (string \<Rightarrow> ('p, 's) cell) list \<Rightarrow>
   (('p, 's) cell \<rightharpoonup> ('p, 's) cell) \<Rightarrow> error + (('p, 's) cell \<rightharpoonup> ('p, 's) cell)" where
  "key_dict_loop shp key [] d = Inr d"
| "key_dict_loop shp key (r # rs) d =
     (case row_getitem shp r ''geometry'' of
        Inl e \<Rightarrow> Inl e
      | Inr geo \<Rightarrow>
          (case row_getitem shp r key of
             Inl e \<Rightarrow> Inl e
           | Inr k \<Rightarrow> key_dict_loop shp key rs (d(k \<mapsto> geo))))"

definition key_dict_of ::
  "('p, 's) table \<Rightarrow> string \<Rightarrow> error + (('p, 's) cell \<rightharpoonup> ('p, 's) cell)" where
  "key_dict_of shp key = key_dict_loop shp key (rows shp) Map.empty"

text \<open>
  The loop of \<open>edges_geoms_endpoints\<close>, which fills \<open>key_dict\<close> and
  \<open>endpoint_dict\<close> together.
\<close>

fun endpoint_dict_loop ::
  "('p, 's) table \<Rightarrow> string \<Rightarrow> string \<Rightarrow> (string \<Rightarrow> ('p, 's) cell) list \<Rightarrow>
   (('p, 's) cell \<rightharpoonup> ('p, 's) cell) \<times> (('p, 's) cell \<rightharpoonup> ('p, 's) cell) \<Rightarrow>
   error + ((('p, 's) cell \<rightharpoonup> ('p, 's) cell) \<times> (('p, 's) cell \<rightharpoonup> ('p, 's) cell))" where
  "endpoint_dict_loop shp endpoints key [] dd = Inr dd"
| "endpoint_dict_loop shp endpoints key (r # rs) (kd, ed) =
     (case row_getitem shp r ''geometry'' of
        Inl e \<Rightarrow> Inl e
      | Inr geo \<Rightarrow>
          (case row_getitem shp r key of
             Inl e \<Rightarrow> Inl e
           | Inr k \<Rightarrow>
               (case row_getitem shp r endpoints of
                  Inl e \<Rightarrow> Inl e
                | Inr lab \<Rightarrow>
                    endpoint_dict_loop shp endpoints key rs (kd(k \<mapsto> geo), ed(k \<mapsto> lab)))))"

definition dict_getitem :: "('k \<rightharpoonup> 'v) \<Rightarrow> 'k \<Rightarrow> error + 'v" where
  "dict_getitem d k = (case d k of None \<Rightarrow> Inl KeyError | Some v \<Rightarrow> Inr v)"

subsection \<open>edges\_geoms, edges\_to\_gdf and the \_endpoints variants\<close>

definition edge_nodes ::
  "('p, 's) graph \<Rightarrow> int \<times> int \<Rightarrow> error + (('p, 's) attrs \<times> ('p, 's) attrs)" where
  "edge_nodes g e =
     (case nodes_getitem g (fst e) of
        Inl x \<Rightarrow> Inl x
      | Inr n1 \<Rightarrow> (case nodes_getitem g (snd e) of Inl x \<Rightarrow> Inl x | Inr n2 \<Rightarrow> Inr (n1, n2)))"

definition node_keys ::
  "string \<Rightarrow> ('p, 's) attrs \<times> ('p, 's) attrs \<Rightarrow> error + (('p, 's) cell \<times> ('p, 's) cell)" where
  "node_keys key nn =
     (case attr_getitem (fst nn) key of
        Inl x \<Rightarrow> Inl x
      | Inr k1 \<Rightarrow> (case attr_getitem (snd nn) key of Inl x \<Rightarrow> Inl x | Inr k2 \<Rightarrow> Inr (k1, k2)))"

definition dict_pair :: "('k \<rightharpoonup> 'v) \<Rightarrow> 'k \<times> 'k \<Rightarrow> error + ('v \<times> 'v)" where
  "dict_pair d kk =
     (case dict_getitem d (fst kk) of
        Inl x \<Rightarrow> Inl x
      | Inr v1 \<Rightarrow> (case dict_getitem d (snd kk) of Inl x \<Rightarrow> Inl x | Inr v2 \<Rightarrow> Inr (v1, v2)))"

definition edges_geoms ::
  "('p, 's) graph \<Rightarrow> ('p, 's) table \<Rightarrow> string \<Rightarrow>
   error + (('p, 's) cell \<times> ('p, 's) cell) list" where
  "edges_geoms g shp key =
     (case key_dict_of shp key of
        Inl e \<Rightarrow> Inl e
      | Inr key_dict \<Rightarrow>
          (case try_map (edge_nodes g) (edges g) of
             Inl e \<Rightarrow> Inl e
           | Inr nodes \<Rightarrow>
               (case try_map (node_keys key) nodes of
                  Inl e \<Rightarrow> Inl e
                | Inr keys \<Rightarrow> try_map (dict_pair key_dict) keys)))"

text \<open>\<open>LineString([poly1.centroid, poly2.centroid])\<close>; a cell that is no geometry has no centroid.\<close>

definition cell_centroid ::
  "(('p, 's) geometry \<Rightarrow> 'p) \<Rightarrow> ('p, 's) cell \<Rightarrow> error + 'p" where
  "cell_centroid centroid c =
     (case c of GeomV x \<Rightarrow> Inr (centroid x) | _ \<Rightarrow> Inl AttributeError)"

definition centerline ::
  "(('p, 's) geometry \<Rightarrow> 'p) \<Rightarrow> ('p, 's) cell \<times> ('p, 's) cell \<Rightarrow> error + ('p, 's) geometry" where
  "centerline centroid pp =
     (case cell_centroid centroid (fst pp) of
        Inl e \<Rightarrow> Inl e
      | Inr c1 \<Rightarrow>
          (case cell_centroid centroid (snd pp) of
             Inl e \<Rightarrow> Inl e
           | Inr c2 \<Rightarrow> Inr (LineString [c1, c2])))"

definition edges_to_gdf ::
  "(('p, 's) geometry \<Rightarrow> 'p) \<Rightarrow> ('p, 's) graph \<Rightarrow> ('p, 's) table \<Rightarrow> string \<Rightarrow>
   error + ('p, 's) table" where
  "edges_to_gdf centroid g shp key =
     (case edges_geoms g shp key of
        Inl e \<Rightarrow> Inl e
      | Inr geoms \<Rightarrow>
          (case try_map (centerline centroid) geoms of
             Inl e \<Rightarrow> Inl e
           | Inr lines \<Rightarrow>
               set_crs \<lparr>columns = [''geometry''],
                        rows = map (\<lambda>l. blank_row(''geometry'' := GeomV l)) lines,
                        crs = None\<rparr> (crs shp)))"



subsection \<open>shared\_boundaries\_gdf\<close>





subsection \<open>remove\_edge\_by\_feature, add\_edge\_by\_feature\<close>

definition remove_edge_by_feature ::
  "('p, 's) graph \<Rightarrow> ('p, 's) cell \<Rightarrow> ('p, 's) cell \<Rightarrow> string \<Rightarrow> error + ('p, 's) graph" where
  "remove_edge_by_feature g u_key v_key key =
     (case find_node_by_key u_key g key of
        Inl e \<Rightarrow> Inl e
      | Inr u \<Rightarrow>
          (case find_node_by_key v_key g key of
             Inl e \<Rightarrow> Inl e
           | Inr v \<Rightarrow> remove_edge g u v))"

definition add_edge_by_feature ::
  "('p, 's) graph \<Rightarrow> ('p, 's) cell \<Rightarrow> ('p, 's) cell \<Rightarrow> string \<Rightarrow> error + ('p, 's) graph" where
  "add_edge_by_feature g u_key v_key key =
     (case find_node_by_key u_key g key of
        Inl e \<Rightarrow> Inl e
      | Inr u \<Rightarrow>
          (case find_node_by_key v_key g key of
             Inl e \<Rightarrow> Inl e
           | Inr v \<Rightarrow> Inr (add_edge g u v)))"

subsection \<open>mark\_edges, mark\_edges\_dict\<close>

text \<open>\<open>if col not in list(g_shp): g_shp[col] = 0\<close>\<close>

definition ensure_column :: "('p, 's) table \<Rightarrow> string \<Rightarrow> ('p, 's) table" where
  "ensure_column t col =
     (if col \<notin> set (columns t)
      then t\<lparr>columns := columns t @ [col], rows := map (\<lambda>r. r(col := IntV 0)) (rows t)\<rparr>
      else t)"

text \<open>
  \<open>g_shp.loc[(g_shp[c1] == x) & (g_shp[c2] == y), col] = val\<close>, for a column \<open>col\<close> of
  the table (which \<open>ensure_column\<close> has made sure of): the cell \<open>col\<close> of every row
  whose mask is true is overwritten.
\<close>

definition loc_assign ::
  "('p, 's) table \<Rightarrow> string \<Rightarrow> ('p, 's) cell \<Rightarrow> string \<Rightarrow> ('p, 's) cell \<Rightarrow>
   string \<Rightarrow> ('p, 's) cell \<Rightarrow> error + ('p, 's) table" where
  "loc_assign t c1 x c2 y col val =
     (if c1 \<in> set (columns t) \<and> c2 \<in> set (columns t)
      then Inr (t\<lparr>rows := map (\<lambda>r. if r c1 = x \<and> r c2 = y then r(col := val) else r) (rows t)\<rparr>)
      else Inl KeyError)"

text \<open>The body of the loop over the marks: "try u,v", then "try v,u" as the code writes it.\<close>

definition mark_pair ::
  "string \<Rightarrow> ('p, 's) cell \<Rightarrow> ('p, 's) cell \<times> ('p, 's) cell \<Rightarrow> ('p, 's) table \<Rightarrow>
   error + ('p, 's) table" where
  "mark_pair col val uv t =
     (case loc_assign t ''endpoint_u'' (fst uv) ''endpoint_v'' (snd uv) col val of
        Inl e \<Rightarrow> Inl e
      | Inr t1 \<Rightarrow> loc_assign t1 ''endpoint_v'' (fst uv) ''endpoint_u'' (fst uv) col val)"

definition mark_edges ::
  "('p, 's) table \<Rightarrow> (('p, 's) cell \<times> ('p, 's) cell) list \<Rightarrow> string \<Rightarrow> ('p, 's) cell \<Rightarrow>
   error + ('p, 's) table" where
  "mark_edges g_shp marks col val = try_fold (mark_pair col val) marks (ensure_column g_shp col)"

text \<open>The dictionary of marks is its items in insertion order.\<close>

definition mark_edges_dict ::
  "('p, 's) table \<Rightarrow> ((('p, 's) cell \<times> ('p, 's) cell) \<times> ('p, 's) cell) list \<Rightarrow> string \<Rightarrow>
   error + ('p, 's) table" where
  "mark_edges_dict g_shp marks col =
     try_fold (\<lambda>kv. mark_pair col (snd kv) (fst kv)) marks (ensure_column g_shp col)"

section \<open>Concrete inputs\<close>

text \<open>
  The scenario of the specification: nodes 0, 1, 2 with keys "1", "2", "3", edges 0-1 and
  1-2, and three unit squares side by side. A square is given by its lower left corner;
  the instance of shapely's centroid used on them is the centre of the square, the
  instance of the intersection is the common side of two squares side by side.
\<close>

type_synonym pt = "rat \<times> rat"

fun square_centroid :: "(pt, pt) geometry \<Rightarrow> pt" where
  "square_centroid (Shape (x, y)) = (x + 1 / 2, y + 1 / 2)"
| "square_centroid (LineString ps) = (0, 0)"


definition ex_graph :: "(pt, pt) graph" where
  "ex_graph =
     \<lparr>node_dict = [(0, [''GEOID10'' \<mapsto> StrV ''1'']), (1, [''GEOID10'' \<mapsto> StrV ''2'']),
                   (2, [''GEOID10'' \<mapsto> StrV ''3''])],
      adj = (\<lambda>_. [])(0 := [1], 1 := [0, 2], 2 := [1])\<rparr>"

definition ex_shp :: "(pt, pt) table" where
  "ex_shp =
     \<lparr>columns = [''GEOID10'', ''geometry''],
      rows = [blank_row(''GEOID10'' := StrV ''1'', ''geometry'' := GeomV (Shape (0, 0))),
              blank_row(''GEOID10'' := StrV ''2'', ''geometry'' := GeomV (Shape (1, 0))),
              blank_row(''GEOID10'' := StrV ''3'', ''geometry'' := GeomV (Shape (2, 0)))],
      crs = Some ''EPSG:4326''\<rparr>"

text \<open>A feature table in which two rows carry the key "1".\<close>

definition ex_dup_shp :: "(pt, pt) table" where
  "ex_dup_shp =
     \<lparr>columns = [''GEOID10'', ''geometry''],
      rows = [blank_row(''GEOID10'' := StrV ''1'', ''geometry'' := GeomV (Shape (0, 0))),
              blank_row(''GEOID10'' := StrV ''2'', ''geometry'' := GeomV (Shape (1, 0))),
              blank_row(''GEOID10'' := StrV ''1'', ''geometry'' := GeomV (Shape (5, 5)))],
      crs = Some ''EPSG:4326''\<rparr>"

text \<open>
  An edge table with the edge a-b stored once as (a, b) and once as (b, a), and a column
  \<open>marked\<close> that is 0 everywhere.
\<close>

definition ex_edge_table :: "(pt, pt) table" where
  "ex_edge_table =
     \<lparr>columns = [''endpoint_u'', ''endpoint_v'', ''marked''],
      rows = [blank_row(''endpoint_u'' := StrV ''a'', ''endpoint_v'' := StrV ''b'',
                        ''marked'' := IntV 0),
              blank_row(''endpoint_u'' := StrV ''b'', ''endpoint_v'' := StrV ''a'',
                        ''marked'' := IntV 0)],
      crs = Some ''EPSG:4326''\<rparr>"

text \<open>The column \<open>c\<close> of the table a call returned, or the error it raised.\<close>

definition result_column ::
  "error + ('p, 's) table \<Rightarrow> string \<Rightarrow> error + ('p, 's) cell list" where
  "result_column res c = (case res of Inl e \<Rightarrow> Inl e | Inr t \<Rightarrow> column t c)"

text \<open>
  What the dictionary should hold for key \<open>k\<close> if the last write wins: the cell of column
  \<open>c\<close> in the last row, in iteration order, whose key cell is \<open>k\<close>; nothing when no row
  has that key.
\<close>

definition last_write ::
  "string \<Rightarrow> string \<Rightarrow> (string \<Rightarrow> ('p, 's) cell) list \<Rightarrow> ('p, 's) cell \<Rightarrow> ('p, 's) cell option" where
  "last_write key c rs k =
     (case filter (\<lambda>r. r key = k) rs of [] \<Rightarrow> None | x # xs \<Rightarrow> Some (last (x # xs) c))"

text \<open>
  The nodes whose key attribute equals the target, in iteration order, and the key
  attributes (\<open>None\<close> for a node that has none) of the nodes the scan of
  \<open>find_node_by_key\<close> passes before it reaches the first of them.
\<close>

definition matching_nodes :: "('p, 's) cell \<Rightarrow> ('p, 's) graph \<Rightarrow> string \<Rightarrow> int list" where
  "matching_nodes keyval g key =
     map fst (filter (\<lambda>e. snd e key = Some keyval) (node_dict g))"

definition scanned ::
  "('p, 's) cell \<Rightarrow> ('p, 's) graph \<Rightarrow> string \<Rightarrow> ('p, 's) cell option list" where
  "scanned keyval g key =
     map (\<lambda>e. snd e key) (takeWhile (\<lambda>e. snd e key \<noteq> Some keyval) (node_dict g))"

text \<open>
  The graph of the scenario after \<open>add_edge_by_feature\<close> was called with a key that no
  node carries and the key "1": networkx has added the node \<open>-1\<close>, without attributes.
\<close>

definition ex_graph_unresolved :: "(pt, pt) graph" where
  "ex_graph_unresolved = add_edge ex_graph (- 1) 0"

text \<open>A graph whose first node has no attributes and whose other two nodes share the key "1".\<close>

definition ex_bare_first :: "(pt, pt) graph" where
  "ex_bare_first =
     \<lparr>node_dict = [(5, Map.empty), (0, [''GEOID10'' \<mapsto> StrV ''1'']),
                   (1, [''GEOID10'' \<mapsto> StrV ''1''])],
      adj = (\<lambda>_. [])\<rparr>"

text \<open>A graph in which the nodes 1 and 2 share the key "2".\<close>

definition ex_dup_graph :: "(pt, pt) graph" where
  "ex_dup_graph =
     \<lparr>node_dict = [(0, [''GEOID10'' \<mapsto> StrV ''1'']), (1, [''GEOID10'' \<mapsto> StrV ''2'']),
                   (2, [''GEOID10'' \<mapsto> StrV ''2''])],
      adj = (\<lambda>_. [])(0 := [1], 1 := [0])\<rparr>"


text \<open>
  What the scenario should give: the two centerlines of \<open>edges_to_gdf\<close>, the same with
  the endpoint labels, and the two common sides of \<open>shared_boundaries_gdf\<close>.
\<close>

definition ex_gdf :: "(pt, pt) table" where
  "ex_gdf =
     \<lparr>columns = [''geometry''],
      rows = [blank_row(''geometry'' := GeomV (LineString [(1 / 2, 1 / 2), (3 / 2, 1 / 2)])),
              blank_row(''geometry'' := GeomV (LineString [(3 / 2, 1 / 2), (5 / 2, 1 / 2)]))],
      crs = Some ''EPSG:4326''\<rparr>"





section \<open>Properties of the helpers\<close>

lemma try_map_length: "try_map f xs = Inr ys \<Longrightarrow> length ys = length xs"
  by (induction xs arbitrary: ys) (auto split: sum.splits)

lemma try_map_nth:
  "try_map f xs = Inr ys \<Longrightarrow> i < length xs \<Longrightarrow> f (xs ! i) = Inr (ys ! i)"
proof (induction xs arbitrary: ys i)
  case Nil
  then show ?case by simp
next
  case (Cons x xs)
  then show ?case by (cases i) (auto split: sum.splits)
qed


section \<open>The key dictionaries (C9)\<close>

lemma key_dict_loop_eq:
  "key \<in> set (columns shp) \<Longrightarrow> ''geometry'' \<in> set (columns shp) \<Longrightarrow>
   key_dict_loop shp key rs d =
     Inr (\<lambda>k. case last_write key ''geometry'' rs k of None \<Rightarrow> d k | Some x \<Rightarrow> Some x)"
proof (induction rs arbitrary: d)
  case Nil
  then show ?case by (simp add: last_write_def)
next
  case (Cons r rs)
  show ?case
    using Cons.prems
    by (simp add: Cons.IH row_getitem_def last_write_def fun_eq_iff split: list.splits)
qed

lemma endpoint_dict_loop_eq:
  "key \<in> set (columns shp) \<Longrightarrow> ''geometry'' \<in> set (columns shp) \<Longrightarrow>
   endpoints \<in> set (columns shp) \<Longrightarrow>
   endpoint_dict_loop shp endpoints key rs (kd, ed) =
     Inr (\<lambda>k. case last_write key ''geometry'' rs k of None \<Rightarrow> kd k | Some x \<Rightarrow> Some x,
          \<lambda>k. case last_write key endpoints rs k of None \<Rightarrow> ed k | Some x \<Rightarrow> Some x)"
proof (induction rs arbitrary: kd ed)
  case Nil
  then show ?case by (simp add: last_write_def)
next
  case (Cons r rs)
  show ?case
    using Cons.prems
    by (simp add: Cons.IH row_getitem_def last_write_def fun_eq_iff split: list.splits)
qed

lemma key_dict_of_eq:
  "key \<in> set (columns shp) \<Longrightarrow> ''geometry'' \<in> set (columns shp) \<Longrightarrow>
   key_dict_of shp key = Inr (last_write key ''geometry'' (rows shp))"
  by (simp add: key_dict_of_def key_dict_loop_eq fun_eq_iff split: option.splits)

lemma endpoint_dicts_eq:
  "key \<in> set (columns shp) \<Longrightarrow> ''geometry'' \<in> set (columns shp) \<Longrightarrow>
   endpoints \<in> set (columns shp) \<Longrightarrow>
   endpoint_dict_loop shp endpoints key (rows shp) (Map.empty, Map.empty) =
     Inr (last_write key ''geometry'' (rows shp), last_write key endpoints (rows shp))"
  by (simp add: endpoint_dict_loop_eq fun_eq_iff split: option.splits)

text \<open>
  C9. The key-to-geometry dictionary of \<open>edges_geoms\<close> and the two dictionaries of
  \<open>edges_geoms_endpoints\<close>: on a feature table that has the key column, the geometry
  column (and the label column), building them raises nothing, whatever keys repeat, and
  each key is mapped to the geometry (and the label) of the last row carrying it.
\<close>

theorem key_dict_last_write_wins:
  assumes "key \<in> set (columns shp)" and "''geometry'' \<in> set (columns shp)"
  shows "key_dict_of shp key = Inr (last_write key ''geometry'' (rows shp)) \<and>
         (endpoints \<in> set (columns shp) \<longrightarrow>
            endpoint_dict_loop shp endpoints key (rows shp) (Map.empty, Map.empty) =
              Inr (last_write key ''geometry'' (rows shp),
                   last_write key endpoints (rows shp)))"
  using assms by (simp add: key_dict_of_eq endpoint_dicts_eq)

theorem key_dict_last_write_wins_witness:
  "''GEOID10'' \<in> set (columns ex_dup_shp) \<and> ''geometry'' \<in> set (columns ex_dup_shp) \<and>
   (case key_dict_of ex_dup_shp ''GEOID10'' of
      Inl e \<Rightarrow> None
    | Inr d \<Rightarrow> d (StrV ''1'')) = Some (GeomV (Shape (5, 5))) \<and>
   (case endpoint_dict_loop ex_dup_shp ''GEOID10'' ''GEOID10'' (rows ex_dup_shp)
           (Map.empty, Map.empty) of
      Inl e \<Rightarrow> None
    | Inr (kd, ed) \<Rightarrow> ed (StrV ''1'')) = Some (StrV ''1'')"
proof -
  have c: "''GEOID10'' \<in> set (columns ex_dup_shp)" "''geometry'' \<in> set (columns ex_dup_shp)"
    by (simp_all add: ex_dup_shp_def)
  show ?thesis
    using c key_dict_last_write_wins [OF c, of "''GEOID10''"]
    by (simp add: last_write_def ex_dup_shp_def blank_row_def)
qed

section \<open>mark\_edges and a row stored in the reverse order (C1)\<close>

text \<open>
  C1. The edge a-b is in the table twice, as (a, b) and as (b, a). Marking the pair
  (a, b) with 1 sets \<open>marked\<close> in the row stored as (a, b) only: the row stored as
  (b, a) keeps its 0, because the second assignment compares \<open>endpoint_u\<close> with \<open>u\<close>
  where the reverse order needs \<open>v\<close>.
\<close>

theorem mark_edges_reversed_row_unmarked:
  "result_column (mark_edges ex_edge_table [(StrV ''a'', StrV ''b'')] ''marked'' (IntV 1))
     ''marked'' = Inr [IntV 1, IntV 0]"
  by (simp add: result_column_def mark_edges_def mark_pair_def loc_assign_def
      ensure_column_def ex_edge_table_def column_def blank_row_def)

section \<open>find\_node\_by\_key (C5, C10)\<close>

lemma scan_nodes_char:
  "scan_nodes keyval key nd =
     (if None \<in> set (map (\<lambda>e. snd e key) (takeWhile (\<lambda>e. snd e key \<noteq> Some keyval) nd))
      then Inl KeyError
      else (case map fst (filter (\<lambda>e. snd e key = Some keyval) nd) of
              [] \<Rightarrow> Inr (- 1) | n # _ \<Rightarrow> Inr n))"
proof (induction nd)
  case Nil
  then show ?case by simp
next
  case (Cons e nd)
  obtain n a where e: "e = (n, a)" by (cases e)
  show ?case
  proof (cases "a key")
    case None
    then show ?thesis by (simp add: e)
  next
    case (Some x)
    then show ?thesis using Cons.IH by (cases "x = keyval") (simp_all add: e)
  qed
qed

lemma find_node_by_key_char:
  "find_node_by_key keyval g key =
     (if None \<in> set (scanned keyval g key)
      then Inl KeyError
      else (case matching_nodes keyval g key of [] \<Rightarrow> Inr (- 1) | n # _ \<Rightarrow> Inr n))"
  unfolding find_node_by_key_def scanned_def matching_nodes_def by (rule scan_nodes_char)

lemma ex_graph_unresolved_nodes:
  "node_dict ex_graph_unresolved =
     [(0, [''GEOID10'' \<mapsto> StrV ''1'']), (1, [''GEOID10'' \<mapsto> StrV ''2'']),
      (2, [''GEOID10'' \<mapsto> StrV ''3'']), (- 1, Map.empty)]"
  by (simp add: ex_graph_unresolved_def add_edge_def add_node_if_absent_def ex_graph_def
      node_ids_def Let_def)

text \<open>
  C5, as stated, fails on the graph that \<open>add_edge_by_feature\<close> leaves behind after an
  unresolved key: no node's key attribute equals "7", and the scan raises KeyError at the
  node \<open>-1\<close>, which has no key attribute, instead of returning the sentinel.
\<close>

theorem find_node_by_key_missing_attribute_raises:
  "node_ids ex_graph_unresolved = [0, 1, 2, - 1] \<and>
   matching_nodes (StrV ''7'') ex_graph_unresolved ''GEOID10'' = [] \<and>
   find_node_by_key (StrV ''7'') ex_graph_unresolved ''GEOID10'' = Inl KeyError"
  by (simp add: node_ids_def matching_nodes_def find_node_by_key_def ex_graph_unresolved_nodes)

text \<open>
  C5, amended. Provided every node the scan passes before the first match (every node,
  when there is no match) carries the key attribute: if exactly one node's key attribute
  equals the target, that node is returned, and if none does, the sentinel \<open>-1\<close> is
  returned and no error is raised.
\<close>

theorem find_node_by_key_unique_or_absent:
  assumes "None \<notin> set (scanned keyval g key)"
  shows "(matching_nodes keyval g key = [n] \<longrightarrow> find_node_by_key keyval g key = Inr n) \<and>
         (matching_nodes keyval g key = [] \<longrightarrow> find_node_by_key keyval g key = Inr (- 1))"
  using assms by (simp add: find_node_by_key_char)

theorem find_node_by_key_unique_or_absent_witness:
  "None \<notin> set (scanned (StrV ''2'') ex_graph ''GEOID10'') \<and>
   matching_nodes (StrV ''2'') ex_graph ''GEOID10'' = [1] \<and>
   find_node_by_key (StrV ''2'') ex_graph ''GEOID10'' = Inr 1 \<and>
   None \<notin> set (scanned (StrV ''9'') ex_graph ''GEOID10'') \<and>
   matching_nodes (StrV ''9'') ex_graph ''GEOID10'' = [] \<and>
   find_node_by_key (StrV ''9'') ex_graph ''GEOID10'' = Inr (- 1)"
proof -
  have s2: "None \<notin> set (scanned (StrV ''2'') ex_graph ''GEOID10'')"
    and s9: "None \<notin> set (scanned (StrV ''9'') ex_graph ''GEOID10'')"
    by (simp_all add: scanned_def ex_graph_def)
  have m2: "matching_nodes (StrV ''2'') ex_graph ''GEOID10'' = [1]"
    and m9: "matching_nodes (StrV ''9'') ex_graph ''GEOID10'' = []"
    by (simp_all add: matching_nodes_def ex_graph_def)
  show ?thesis
    using s2 s9 m2 m9
      find_node_by_key_unique_or_absent [OF s2, of 1]
      find_node_by_key_unique_or_absent [OF s9, of 0]
    by simp
qed

text \<open>
  C10, as stated, fails when a node without the key attribute comes before the matching
  nodes: two nodes carry the key "1", and the scan raises KeyError at node 5.
\<close>

theorem find_node_by_key_duplicates_after_bare_node_raises:
  "matching_nodes (StrV ''1'') ex_bare_first ''GEOID10'' = [0, 1] \<and>
   find_node_by_key (StrV ''1'') ex_bare_first ''GEOID10'' = Inl KeyError"
  by (simp add: matching_nodes_def find_node_by_key_def ex_bare_first_def)

text \<open>
  C10, amended. When two or more nodes carry the target value in the key attribute and
  every node before the first of them carries the key attribute, the first matching node
  in the node iteration order is returned.
\<close>

theorem find_node_by_key_first_of_duplicates:
  assumes "None \<notin> set (scanned keyval g key)"
    and "matching_nodes keyval g key = n # m # rest"
  shows "find_node_by_key keyval g key = Inr n"
  using assms by (simp add: find_node_by_key_char)

theorem find_node_by_key_first_of_duplicates_witness:
  "None \<notin> set (scanned (StrV ''2'') ex_dup_graph ''GEOID10'') \<and>
   matching_nodes (StrV ''2'') ex_dup_graph ''GEOID10'' = [1, 2] \<and>
   find_node_by_key (StrV ''2'') ex_dup_graph ''GEOID10'' = Inr 1"
proof -
  have s: "None \<notin> set (scanned (StrV ''2'') ex_dup_graph ''GEOID10'')"
    by (simp add: scanned_def ex_dup_graph_def)
  have m: "matching_nodes (StrV ''2'') ex_dup_graph ''GEOID10'' = 1 # 2 # []"
    by (simp add: matching_nodes_def ex_dup_graph_def)
  show ?thesis
    using s m find_node_by_key_first_of_duplicates [OF s m] by simp
qed

section \<open>add\_edge\_by\_feature and remove\_edge\_by\_feature (C2, C6)\<close>

lemma add_edge_nodes_present:
  "u \<in> set (node_ids g) \<Longrightarrow> v \<in> set (node_ids g) \<Longrightarrow>
   add_edge g u v =
     g\<lparr>adj := ((adj g)(u := assign_key v (adj g u)))
               (v := assign_key u (((adj g)(u := assign_key v (adj g u))) v))\<rparr>"
  by (simp add: add_edge_def add_node_if_absent_def Let_def)

lemma remove_after_add:
  assumes "u \<in> set (node_ids g)" "v \<in> set (node_ids g)"
    "v \<notin> set (adj g u)" "u \<notin> set (adj g v)"
  shows "remove_edge (add_edge g u v) u v = Inr g"
proof (cases "u = v")
  case True
  then show ?thesis using assms
    by (simp add: add_edge_nodes_present remove_edge_def assign_key_def node_ids_def
        remove1_append)
next
  case False
  have "((adj g)(u := adj g u, v := adj g v)) = adj g" by (simp add: fun_eq_iff)
  then show ?thesis using assms False
    by (simp add: add_edge_nodes_present remove_edge_def assign_key_def node_ids_def Let_def
        remove1_append fun_upd_twist)
qed

lemma remove_edge_no_edge: "v \<notin> set (adj g u) \<Longrightarrow> remove_edge g u v = Inl NetworkXError"
  by (simp add: remove_edge_def)

lemma ex_graph_invariant: "nx_invariant ex_graph"
  by (auto simp: nx_invariant_def ex_graph_def node_ids_def split: if_splits)

text \<open>
  C2, as stated, fails for \<open>add_edge_by_feature\<close>: the key "9" resolves to the sentinel
  \<open>-1\<close>, and the call raises nothing; it returns the graph with the node \<open>-1\<close> and the
  edge from it to node 0 added.
\<close>

theorem add_edge_by_feature_unresolved_key_no_error:
  "find_node_by_key (StrV ''9'') ex_graph ''GEOID10'' = Inr (- 1) \<and>
   add_edge_by_feature ex_graph (StrV ''9'') (StrV ''1'') ''GEOID10'' = Inr ex_graph_unresolved \<and>
   - 1 \<in> set (node_ids ex_graph_unresolved) \<and>
   0 \<in> set (adj ex_graph_unresolved (- 1))"
proof -
  have f9: "find_node_by_key (StrV ''9'') ex_graph ''GEOID10'' = Inr (- 1)"
    and f1: "find_node_by_key (StrV ''1'') ex_graph ''GEOID10'' = Inr 0"
    by (simp_all add: find_node_by_key_def ex_graph_def)
  have a: "add_edge_by_feature ex_graph (StrV ''9'') (StrV ''1'') ''GEOID10'' =
             Inr ex_graph_unresolved"
    by (simp add: add_edge_by_feature_def f9 f1 ex_graph_unresolved_def)
  have n: "- 1 \<in> set (node_ids ex_graph_unresolved)"
    by (simp add: node_ids_def ex_graph_unresolved_nodes)
  have e: "0 \<in> set (adj ex_graph_unresolved (- 1))"
    by (simp add: ex_graph_unresolved_def ex_graph_def add_edge_def add_node_if_absent_def
        node_ids_def Let_def assign_key_def)
  from f9 a n e show ?thesis by simp
qed

text \<open>
  C2, amended. When both lookups return: \<open>remove_edge_by_feature\<close> raises an error if a
  key resolved to the sentinel \<open>-1\<close> and \<open>-1\<close> is not a node of the graph, and also if
  no edge joins the two resolved nodes; \<open>add_edge_by_feature\<close> raises nothing, also for
  a key that resolved to the sentinel: it returns the graph in which both resolved values
  are nodes joined by an edge.
\<close>

theorem edge_by_feature_errors:
  assumes "find_node_by_key u_key g key = Inr u" and "find_node_by_key v_key g key = Inr v"
  shows "(nx_invariant g \<and> (u = - 1 \<or> v = - 1) \<and> - 1 \<notin> set (node_ids g) \<longrightarrow>
            remove_edge_by_feature g u_key v_key key = Inl NetworkXError) \<and>
         (v \<notin> set (adj g u) \<longrightarrow>
            remove_edge_by_feature g u_key v_key key = Inl NetworkXError) \<and>
         add_edge_by_feature g u_key v_key key = Inr (add_edge g u v) \<and>
         u \<in> set (node_ids (add_edge g u v)) \<and> v \<in> set (node_ids (add_edge g u v)) \<and>
         v \<in> set (adj (add_edge g u v) u)"
proof -
  have r: "remove_edge_by_feature g u_key v_key key = remove_edge g u v"
    using assms by (simp add: remove_edge_by_feature_def)
  have 1: "nx_invariant g \<and> (u = - 1 \<or> v = - 1) \<and> - 1 \<notin> set (node_ids g) \<longrightarrow>
            remove_edge g u v = Inl NetworkXError"
    by (auto simp: nx_invariant_def intro!: remove_edge_no_edge)
  have 2: "v \<notin> set (adj g u) \<longrightarrow> remove_edge g u v = Inl NetworkXError"
    by (simp add: remove_edge_no_edge)
  have 3: "add_edge_by_feature g u_key v_key key = Inr (add_edge g u v)"
    using assms by (simp add: add_edge_by_feature_def)
  have 4: "u \<in> set (node_ids (add_edge g u v)) \<and> v \<in> set (node_ids (add_edge g u v)) \<and>
         v \<in> set (adj (add_edge g u v) u)"
    by (auto simp: add_edge_def add_node_if_absent_def Let_def node_ids_def assign_key_def)
  from r 1 2 3 4 show ?thesis by simp
qed

theorem edge_by_feature_errors_witness:
  "find_node_by_key (StrV ''9'') ex_graph ''GEOID10'' = Inr (- 1) \<and>
   find_node_by_key (StrV ''1'') ex_graph ''GEOID10'' = Inr 0 \<and>
   find_node_by_key (StrV ''3'') ex_graph ''GEOID10'' = Inr 2 \<and>
   nx_invariant ex_graph \<and> - 1 \<notin> set (node_ids ex_graph) \<and> 2 \<notin> set (adj ex_graph 0) \<and>
   remove_edge_by_feature ex_graph (StrV ''9'') (StrV ''1'') ''GEOID10'' = Inl NetworkXError \<and>
   remove_edge_by_feature ex_graph (StrV ''1'') (StrV ''3'') ''GEOID10'' = Inl NetworkXError \<and>
   add_edge_by_feature ex_graph (StrV ''9'') (StrV ''1'') ''GEOID10'' =
     Inr (add_edge ex_graph (- 1) 0)"
proof -
  have f9: "find_node_by_key (StrV ''9'') ex_graph ''GEOID10'' = Inr (- 1)"
    and f1: "find_node_by_key (StrV ''1'') ex_graph ''GEOID10'' = Inr 0"
    and f3: "find_node_by_key (StrV ''3'') ex_graph ''GEOID10'' = Inr 2"
    by (simp_all add: find_node_by_key_def ex_graph_def)
  have n: "- 1 \<notin> set (node_ids ex_graph)" and e: "2 \<notin> set (adj ex_graph 0)"
    by (simp_all add: node_ids_def ex_graph_def)
  show ?thesis
    using f9 f1 f3 n e ex_graph_invariant
      edge_by_feature_errors [OF f9 f1] edge_by_feature_errors [OF f1 f3]
    by simp
qed

text \<open>
  C6. On a graph that satisfies the networkx invariant, when the two keys resolve to
  nodes \<open>u\<close> and \<open>v\<close> of the graph that no edge joins, \<open>add_edge_by_feature\<close> adds the
  edge and returns, and \<open>remove_edge_by_feature\<close> on its result returns a graph with
  the edges, and so the edge set, of the original graph.
\<close>

theorem add_then_remove_restores_edges:
  assumes "nx_invariant g"
    and "find_node_by_key u_key g key = Inr u" and "find_node_by_key v_key g key = Inr v"
    and "u \<in> set (node_ids g)" and "v \<in> set (node_ids g)"
    and "v \<notin> set (adj g u)"
  shows "\<exists>g1 g2. add_edge_by_feature g u_key v_key key = Inr g1 \<and> v \<in> set (adj g1 u) \<and>
           remove_edge_by_feature g1 u_key v_key key = Inr g2 \<and>
           edge_set g2 = edge_set g \<and> edges g2 = edges g"
proof -
  from assms(1,6) have nu: "u \<notin> set (adj g v)" by (auto simp: nx_invariant_def)
  have a: "add_edge_by_feature g u_key v_key key = Inr (add_edge g u v)"
    using assms by (simp add: add_edge_by_feature_def)
  have nd: "node_dict (add_edge g u v) = node_dict g"
    using assms by (simp add: add_edge_nodes_present)
  have m: "v \<in> set (adj (add_edge g u v) u)"
    using assms by (simp add: add_edge_nodes_present assign_key_def)
  have "remove_edge_by_feature (add_edge g u v) u_key v_key key = remove_edge (add_edge g u v) u v"
    using assms(2,3) by (simp add: remove_edge_by_feature_def find_node_by_key_def nd)
  with remove_after_add [OF assms(4,5,6) nu]
  have "remove_edge_by_feature (add_edge g u v) u_key v_key key = Inr g" by simp
  with a m show ?thesis by blast
qed

theorem add_then_remove_restores_edges_witness:
  "nx_invariant ex_graph \<and>
   find_node_by_key (StrV ''1'') ex_graph ''GEOID10'' = Inr 0 \<and>
   find_node_by_key (StrV ''3'') ex_graph ''GEOID10'' = Inr 2 \<and>
   0 \<in> set (node_ids ex_graph) \<and> 2 \<in> set (node_ids ex_graph) \<and> 2 \<notin> set (adj ex_graph 0) \<and>
   (\<exists>g1 g2. add_edge_by_feature ex_graph (StrV ''1'') (StrV ''3'') ''GEOID10'' = Inr g1 \<and>
      2 \<in> set (adj g1 0) \<and>
      remove_edge_by_feature g1 (StrV ''1'') (StrV ''3'') ''GEOID10'' = Inr g2 \<and>
      edge_set g2 = edge_set ex_graph \<and> edges g2 = edges ex_graph)"
proof -
  have f1: "find_node_by_key (StrV ''1'') ex_graph ''GEOID10'' = Inr 0"
    and f3: "find_node_by_key (StrV ''3'') ex_graph ''GEOID10'' = Inr 2"
    by (simp_all add: find_node_by_key_def ex_graph_def)
  have n0: "0 \<in> set (node_ids ex_graph)" and n2: "2 \<in> set (node_ids ex_graph)"
    and e: "2 \<notin> set (adj ex_graph 0)"
    by (simp_all add: node_ids_def ex_graph_def)
  show ?thesis
    using f1 f3 n0 n2 e ex_graph_invariant
      add_then_remove_restores_edges [OF ex_graph_invariant f1 f3 n0 n2 e]
    by simp
qed

section \<open>The edge tables (C3, C4, C8)\<close>





lemma try_map_set:
  "try_map f xs = Inr ys \<Longrightarrow> y \<in> set ys \<Longrightarrow> \<exists>x\<in>set xs. f x = Inr y"
  by (induction xs arbitrary: ys) (auto split: sum.splits)









lemma ex_edges: "edges ex_graph = [(0, 1), (1, 2)]"
  by (simp add: edges_def node_ids_def ex_graph_def)

lemma ex_key_dict:
  "key_dict_of ex_shp ''GEOID10'' =
     Inr [StrV ''1'' \<mapsto> GeomV (Shape (0, 0)), StrV ''2'' \<mapsto> GeomV (Shape (1, 0)),
          StrV ''3'' \<mapsto> GeomV (Shape (2, 0))]"
  by (simp add: key_dict_of_def ex_shp_def row_getitem_def blank_row_def)

lemma ex_edges_geoms:
  "edges_geoms ex_graph ex_shp ''GEOID10'' =
     Inr [(GeomV (Shape (0, 0)), GeomV (Shape (1, 0))), (GeomV (Shape (1, 0)), GeomV (Shape (2, 0)))]"
  by (simp add: edges_geoms_def ex_key_dict ex_edges)
    (simp add: ex_graph_def edge_nodes_def nodes_getitem_def node_keys_def attr_getitem_def
      dict_pair_def dict_getitem_def)

lemma ex_gdf_eq: "edges_to_gdf square_centroid ex_graph ex_shp ''GEOID10'' = Inr ex_gdf"
  by (simp add: edges_to_gdf_def ex_edges_geoms centerline_def cell_centroid_def set_crs_def
      ex_gdf_def) (simp add: ex_shp_def)







text \<open>
  C4. In a table that \<open>edges_to_gdf\<close> returns, the row at the position of the edge
  \<open>(u, v)\<close> in the graph's edge iteration order holds the line string of exactly two
  points: first the centroid of the geometry that the key dictionary holds for the key
  value of \<open>u\<close>, then the centroid of the one it holds for the key value of \<open>v\<close>.
\<close>

theorem centerline_endpoints_are_centroids:
  assumes r: "edges_to_gdf centroid g shp key = Inr out"
    and i: "i < length (edges g)" and e: "edges g ! i = (u, v)"
  shows "length (rows out) = length (edges g) \<and>
         (\<exists>d au av ku kv pu pv.
            key_dict_of shp key = Inr d \<and>
            nodes_getitem g u = Inr au \<and> au key = Some ku \<and> d ku = Some (GeomV pu) \<and>
            nodes_getitem g v = Inr av \<and> av key = Some kv \<and> d kv = Some (GeomV pv) \<and>
            (rows out ! i) ''geometry'' = GeomV (LineString [centroid pu, centroid pv]))"
proof -
  from r obtain geoms lines where eg: "edges_geoms g shp key = Inr geoms"
    and tl: "try_map (centerline centroid) geoms = Inr lines"
    and ro: "rows out = map (\<lambda>l. blank_row(''geometry'' := GeomV l)) lines"
    by (auto simp: edges_to_gdf_def set_crs_def split: sum.splits option.splits)
  from eg obtain d nodes keys where kd: "key_dict_of shp key = Inr d"
    and tn: "try_map (edge_nodes g) (edges g) = Inr nodes"
    and tk: "try_map (node_keys key) nodes = Inr keys"
    and tg: "try_map (dict_pair d) keys = Inr geoms"
    by (auto simp: edges_geoms_def split: sum.splits)
  have len: "length nodes = length (edges g)" "length keys = length (edges g)"
    "length geoms = length (edges g)" "length lines = length (edges g)"
    using try_map_length [OF tn] try_map_length [OF tk] try_map_length [OF tg]
      try_map_length [OF tl] by simp_all
  obtain au av where n: "nodes ! i = (au, av)" by (cases "nodes ! i")
  obtain ku kv where k: "keys ! i = (ku, kv)" by (cases "keys ! i")
  obtain cu cv where c: "geoms ! i = (cu, cv)" by (cases "geoms ! i")
  have 1: "edge_nodes g (u, v) = Inr (au, av)"
    using try_map_nth [OF tn i] e n by simp
  have 2: "node_keys key (au, av) = Inr (ku, kv)"
    using try_map_nth [OF tk, of i] i len n k by simp
  have 3: "dict_pair d (ku, kv) = Inr (cu, cv)"
    using try_map_nth [OF tg, of i] i len k c by simp
  have 4: "centerline centroid (cu, cv) = Inr (lines ! i)"
    using try_map_nth [OF tl, of i] i len c by simp
  from 1 have a: "nodes_getitem g u = Inr au" "nodes_getitem g v = Inr av"
    by (auto simp: edge_nodes_def split: sum.splits)
  from 2 have b: "au key = Some ku" "av key = Some kv"
    by (auto simp: node_keys_def attr_getitem_def split: sum.splits option.splits)
  from 3 have dd: "d ku = Some cu" "d kv = Some cv"
    by (auto simp: dict_pair_def dict_getitem_def split: sum.splits option.splits)
  from 4 obtain pu pv where p: "cu = GeomV pu" "cv = GeomV pv"
    "lines ! i = LineString [centroid pu, centroid pv]"
    by (auto simp: centerline_def cell_centroid_def split: sum.splits cell.splits)
  have g: "(rows out ! i) ''geometry'' = GeomV (LineString [centroid pu, centroid pv])"
    using ro i len p by simp
  from ro len have "length (rows out) = length (edges g)" by simp
  with kd a b dd p g show ?thesis by blast
qed

theorem centerline_endpoints_are_centroids_witness:
  "edges_to_gdf square_centroid ex_graph ex_shp ''GEOID10'' = Inr ex_gdf \<and>
   (1 :: nat) < length (edges ex_graph) \<and> edges ex_graph ! 1 = (1, 2) \<and>
   length (rows ex_gdf) = length (edges ex_graph) \<and>
   (rows ex_gdf ! 1) ''geometry'' = GeomV (LineString [(3 / 2, 1 / 2), (5 / 2, 1 / 2)]) \<and>
   (\<exists>d au av ku kv pu pv.
      key_dict_of ex_shp ''GEOID10'' = Inr d \<and>
      nodes_getitem ex_graph 1 = Inr au \<and> au ''GEOID10'' = Some ku \<and> d ku = Some (GeomV pu) \<and>
      nodes_getitem ex_graph 2 = Inr av \<and> av ''GEOID10'' = Some kv \<and> d kv = Some (GeomV pv) \<and>
      (rows ex_gdf ! 1) ''geometry'' =
        GeomV (LineString [square_centroid pu, square_centroid pv]))"
proof -
  have i: "(1 :: nat) < length (edges ex_graph)" and e: "edges ex_graph ! 1 = (1, 2)"
    by (simp_all add: ex_edges)
  have l: "(rows ex_gdf ! 1) ''geometry'' = GeomV (LineString [(3 / 2, 1 / 2), (5 / 2, 1 / 2)])"
    by (simp add: ex_gdf_def)
  show ?thesis
    using ex_gdf_eq i e l centerline_endpoints_are_centroids [OF ex_gdf_eq i e]
    by simp
qed




section \<open>Marking twice, and marking a pair that is not in the table (C7)\<close>














end
